theory Spec2Isabelle
  imports Main "HOL-Library.Word"
begin

section \<open>Status codes and statuses (package google.golang.org/grpc, v1.50.0)\<close>

text \<open>
  The interceptor of \<^verbatim>\<open>grpc/middleware/grpcerror/grpc_error.go\<close> calls the status
  package of grpc-go, which \<^verbatim>\<open>go.mod\<close> pins at v1.50.0.  The package is a third-party
  library; the functions the interceptor calls are written out here as that version
  documents them, so that the interceptor can be evaluated.

  \<^verbatim>\<open>codes.Code\<close> is a \<^verbatim>\<open>uint32\<close>.
\<close>

type_synonym code = "32 word"

abbreviation codes_OK :: code where "codes_OK \<equiv> 0"
abbreviation codes_Canceled :: code where "codes_Canceled \<equiv> 1"
abbreviation codes_Unknown :: code where "codes_Unknown \<equiv> 2"
abbreviation codes_DeadlineExceeded :: code where "codes_DeadlineExceeded \<equiv> 4"
abbreviation codes_NotFound :: code where "codes_NotFound \<equiv> 5"
abbreviation codes_Internal :: code where "codes_Internal \<equiv> 13"

text \<open>\<^verbatim>\<open>strconv.FormatInt(n, 10)\<close> on a value that is not negative.\<close>

definition digit_char :: "nat \<Rightarrow> char" where
  "digit_char d = char_of (48 + d)"

function FormatInt :: "nat \<Rightarrow> string" where
  "FormatInt n = (if n < 10 then [digit_char n] else FormatInt (n div 10) @ [digit_char (n mod 10)])"
  by pat_completeness auto
termination
  by (relation "measure id") auto

text \<open>\<^verbatim>\<open>func (c Code) String() string\<close>: the seventeen names, and \<^verbatim>\<open>Code(n)\<close> otherwise.\<close>

definition code_String :: "code \<Rightarrow> string" where
  "code_String c =
     (if c = 0 then ''OK''
      else if c = 1 then ''Canceled''
      else if c = 2 then ''Unknown''
      else if c = 3 then ''InvalidArgument''
      else if c = 4 then ''DeadlineExceeded''
      else if c = 5 then ''NotFound''
      else if c = 6 then ''AlreadyExists''
      else if c = 7 then ''PermissionDenied''
      else if c = 8 then ''ResourceExhausted''
      else if c = 9 then ''FailedPrecondition''
      else if c = 10 then ''Aborted''
      else if c = 11 then ''OutOfRange''
      else if c = 12 then ''Unimplemented''
      else if c = 13 then ''Internal''
      else if c = 14 then ''Unavailable''
      else if c = 15 then ''DataLoss''
      else if c = 16 then ''Unauthenticated''
      else ''Code('' @ FormatInt (unat c) @ '')'')"

text \<open>
  A detail payload is a \<^verbatim>\<open>proto.Message\<close>.  The only thing done with one is
  \<^verbatim>\<open>ptypes.MarshalAny\<close>, so a message is represented by what that call returns for it:
  the packed value, or nothing when marshalling fails.
\<close>

datatype proto_any = Any string

datatype proto_message = Message (MarshalAny: "proto_any option")

text \<open>
  The status proto: code, message and packed details.  A \<^verbatim>\<open>*Status\<close> is a pointer and
  can be nil, so it is a \<open>status option\<close>.
\<close>

record status =
  code :: code
  message :: string
  details :: "proto_any list"

text \<open>\<^verbatim>\<open>status.New(c, msg)\<close>.\<close>

definition New :: "code \<Rightarrow> string \<Rightarrow> status option" where
  "New c msg = Some \<lparr>code = c, message = msg, details = []\<rparr>"

text \<open>\<^verbatim>\<open>func (s *Status) Code() codes.Code\<close>: OK for the nil status.\<close>

fun Code :: "status option \<Rightarrow> code" where
  "Code None = codes_OK"
| "Code (Some s) = code s"

section \<open>Error values\<close>

text \<open>
  A Go \<^verbatim>\<open>error\<close> is an interface value.  The interceptor and the library functions it
  calls observe an error through: its identity with one of the two context sentinels,
  its \<^verbatim>\<open>Error()\<close> text, and the optional methods \<^verbatim>\<open>Unwrap() error\<close>,
  \<^verbatim>\<open>GRPCStatus() *Status\<close> and \<^verbatim>\<open>Details() []proto.Message\<close>.

  \<^item> \<open>context_Canceled\<close> and \<open>context_DeadlineExceeded\<close> are the sentinels of package
    context;
  \<^item> \<open>StatusError s\<close> is the library's \<^verbatim>\<open>*status.Error\<close> holding the status \<open>s\<close>;
  \<^item> \<open>AppError text cause st ds\<close> is a value of any other error type: its text, what
    \<^verbatim>\<open>errors.Unwrap\<close> gives for it (\<open>None\<close> when the type has no \<^verbatim>\<open>Unwrap\<close> method or
    the method returns nil), what \<^verbatim>\<open>GRPCStatus()\<close> returns when the type has that method
    (the inner option is the pointer), and what \<^verbatim>\<open>Details()\<close> returns when the type has
    that method.  Error types with an \<^verbatim>\<open>Is\<close> method of their own are not represented.
  A nil \<^verbatim>\<open>error\<close> is \<open>None\<close> of \<open>error option\<close>.
\<close>

datatype error =
    context_Canceled
  | context_DeadlineExceeded
  | StatusError status
  | AppError string "error option" "status option option" "proto_message list option"

text \<open>The \<^verbatim>\<open>Error()\<close> method.\<close>

fun Error :: "error \<Rightarrow> string" where
  "Error context_Canceled = ''context canceled''"
| "Error context_DeadlineExceeded = ''context deadline exceeded''"
| "Error (StatusError s) = ''rpc error: code = '' @ code_String (code s) @ '' desc = '' @ message s"
| "Error (AppError text cause st ds) = text"

text \<open>\<^verbatim>\<open>errors.Unwrap(err)\<close>: the result of the \<^verbatim>\<open>Unwrap\<close> method, nil without one.\<close>

fun errors_Unwrap :: "error \<Rightarrow> error option" where
  "errors_Unwrap (AppError text cause st ds) = cause"
| "errors_Unwrap e = None"

text \<open>The type assertion \<^verbatim>\<open>err.(interface{ GRPCStatus() *Status })\<close> and the call.\<close>

fun GRPCStatus :: "error \<Rightarrow> status option option" where
  "GRPCStatus (StatusError s) = Some (Some s)"
| "GRPCStatus (AppError text cause st ds) = st"
| "GRPCStatus e = None"

text \<open>The type assertion \<^verbatim>\<open>err.(interface{ Details() []proto.Message })\<close> and the call.\<close>

fun Details :: "error \<Rightarrow> proto_message list option" where
  "Details (AppError text cause st ds) = ds"
| "Details e = None"

text \<open>
  \<^verbatim>\<open>errors.Is(err, target)\<close> for a sentinel target: the error itself or any error of its
  \<^verbatim>\<open>Unwrap\<close> chain is the target.
\<close>

fun errors_Is :: "error \<Rightarrow> error \<Rightarrow> bool" where
  "errors_Is (AppError text cause st ds) target =
     (AppError text cause st ds = target \<or>
      (case cause of None \<Rightarrow> False | Some e \<Rightarrow> errors_Is e target))"
| "errors_Is e target = (e = target)"


section \<open>The status package's functions\<close>

text \<open>\<^verbatim>\<open>func (s *Status) Err() error\<close>: nil when the code is OK.\<close>

definition Err :: "status option \<Rightarrow> error option" where
  "Err s = (case s of None \<Rightarrow> None
            | Some st \<Rightarrow> if code st = codes_OK then None else Some (StatusError st))"

text \<open>\<^verbatim>\<open>status.Error(c, msg)\<close> is \<^verbatim>\<open>New(c, msg).Err()\<close>.\<close>

definition status_Error :: "code \<Rightarrow> string \<Rightarrow> error option" where
  "status_Error c msg = Err (New c msg)"

text \<open>
  \<^verbatim>\<open>status.FromError(err)\<close> for a non-nil error: the status of an error with the
  \<^verbatim>\<open>GRPCStatus\<close> method and true; otherwise an Unknown status with the error's text
  and false.
\<close>

definition FromError :: "error \<Rightarrow> status option \<times> bool" where
  "FromError err = (case GRPCStatus err of
       Some s \<Rightarrow> (s, True)
     | None \<Rightarrow> (New codes_Unknown (Error err), False))"

text \<open>
  \<^verbatim>\<open>status.FromContextError(err)\<close> for a non-nil error: DeadlineExceeded or Canceled
  when the error is (or wraps) the sentinel, Unknown otherwise, always with the
  error's text.
\<close>

definition FromContextError :: "error \<Rightarrow> status option" where
  "FromContextError err =
     (if errors_Is err context_DeadlineExceeded then New codes_DeadlineExceeded (Error err)
      else if errors_Is err context_Canceled then New codes_Canceled (Error err)
      else New codes_Unknown (Error err))"

text \<open>\<^verbatim>\<open>status.Code(err)\<close>: OK for nil, the status's code, Unknown otherwise.\<close>

definition status_Code :: "error option \<Rightarrow> code" where
  "status_Code err = (case err of None \<Rightarrow> codes_OK
     | Some e \<Rightarrow> (case GRPCStatus e of Some s \<Rightarrow> Code s | None \<Rightarrow> codes_Unknown))"

text \<open>
  \<^verbatim>\<open>func (s *Status) WithDetails(details ...proto.Message) (*Status, error)\<close>: an error
  for a status with code OK; otherwise a copy of the status with every detail packed
  and appended, or the first marshalling error.
\<close>

datatype details_error = NoDetailsForOK | MarshalFailed

fun marshal_all :: "proto_message list \<Rightarrow> proto_any list option" where
  "marshal_all [] = Some []"
| "marshal_all (d # ds) =
     (case MarshalAny d of None \<Rightarrow> None
      | Some a \<Rightarrow> (case marshal_all ds of None \<Rightarrow> None | Some as \<Rightarrow> Some (a # as)))"

definition WithDetails :: "status option \<Rightarrow> proto_message list \<Rightarrow> details_error + status option" where
  "WithDetails s ds =
     (case s of None \<Rightarrow> Inl NoDetailsForOK
      | Some st \<Rightarrow>
          if code st = codes_OK then Inl NoDetailsForOK
          else (case marshal_all ds of
                  None \<Rightarrow> Inl MarshalFailed
                | Some as \<Rightarrow> Inr (Some (st\<lparr>details := details st @ as\<rparr>))))"

section \<open>The error-translation interceptor\<close>

text \<open>
  The interceptor logs through the logging facade:
  \<^verbatim>\<open>logger.WithFields(logger.Fields{"error": err}).Warnf(...)\<close>.  The entries it hands to
  the facade are collected in a list of entries, which every operation takes and returns.
\<close>

datatype level = DebugLevel | InfoLevel | WarnLevel | ErrorLevel | FatalLevel | PanicLevel

record entry =
  entry_level :: level
  entry_fields :: "(string \<times> error) list"
  entry_msg :: string

type_synonym entries = "entry list"

record grpcErrorWrapper =
  development :: bool
  internalServerErr :: "error option"

text \<open>\<^verbatim>\<open>func unwrapErr(err error) error\<close>\<close>

definition unwrapErr :: "error \<Rightarrow> error" where
  "unwrapErr err = (case errors_Unwrap err of Some wrappedErr \<Rightarrow> wrappedErr | None \<Rightarrow> err)"

text \<open>
  \<^verbatim>\<open>func (w grpcErrorWrapper) GRPCError(err error) error\<close>.  The wrapper type is not
  exported and the interceptor calls the method only with a non-nil error.  The branches
  are those of the source, in its order, the ones after the development block included;
  the \<open>ok\<close> tested there is the one \<^verbatim>\<open>status.FromError\<close> returned.
\<close>

definition GRPCError :: "grpcErrorWrapper \<Rightarrow> error \<Rightarrow> entries \<Rightarrow> error option \<times> entries" where
  "GRPCError w err lg =
     (let wrappedErr = unwrapErr err in
      if wrappedErr = context_Canceled \<or> wrappedErr = context_DeadlineExceeded
      then (Err (FromContextError wrappedErr), lg)
      else
        let (stt0, ok) = FromError wrappedErr in
        if \<not> ok then (Err (FromContextError wrappedErr), lg)
        else
          let stt = (case Details wrappedErr of
                       None \<Rightarrow> stt0
                     | Some de \<Rightarrow> (case WithDetails stt0 de of Inr s \<Rightarrow> s | Inl e \<Rightarrow> stt0)) in
          if development w
          then (status_Error (Code stt) (Error err),
                lg @ [\<lparr>entry_level = WarnLevel, entry_fields = [(''error'', err)],
                       entry_msg = ''getting error...''\<rparr>])
          else if ok then (Err stt, lg)
          else (internalServerErr w,
                lg @ [\<lparr>entry_level = ErrorLevel, entry_fields = [(''error'', err)],
                       entry_msg = ''unexpected error...''\<rparr>]))"

text \<open>
  The status \<open>stt\<close> after the \<^verbatim>\<open>Details\<close> block of \<open>GRPCError\<close>, named for the
  proofs: the status of the unwrapped error, with the error's details attached when it
  has some and attaching them succeeds.
\<close>

definition detailed :: "error \<Rightarrow> status option \<Rightarrow> status option" where
  "detailed wrappedErr st =
     (case Details wrappedErr of
        None \<Rightarrow> st
      | Some de \<Rightarrow> (case WithDetails st de of Inr s \<Rightarrow> s | Inl e \<Rightarrow> st))"

text \<open>
  \<^verbatim>\<open>UnaryServerInterceptor(development, internalServerErr)\<close> returns the interceptor; the
  interceptor takes the context, the request, the call info and the handler.  The handler
  is the service's code: it returns a response (\<open>None\<close> is nil) and an error, and may log.
\<close>

definition UnaryServerInterceptor ::
  "bool \<Rightarrow> error option \<Rightarrow> 'ctx \<Rightarrow> 'req \<Rightarrow> 'info \<Rightarrow>
   ('ctx \<Rightarrow> 'req \<Rightarrow> entries \<Rightarrow> ('res option \<times> error option) \<times> entries) \<Rightarrow> entries \<Rightarrow>
   ('res option \<times> error option) \<times> entries" where
  "UnaryServerInterceptor dev internal ctx req info handler lg =
     (let w = \<lparr>development = dev, internalServerErr = internal\<rparr>;
          ((res, err), lg') = handler ctx req lg in
      case err of
        Some e \<Rightarrow> (let (r, lg'') = GRPCError w e lg' in ((None, r), lg''))
      | None \<Rightarrow> ((res, None), lg'))"

section \<open>The logging facade (logger/logger.go)\<close>

text \<open>\<^verbatim>\<open>type Configuration struct\<close>\<close>

record Configuration =
  EnableConsole :: bool
  ConsoleJSONFormat :: bool
  ConsoleLevel :: string
  EnableFile :: bool
  FileJSONFormat :: bool
  FileLevel :: string
  FileLocation :: string

text \<open>\<^verbatim>\<open>type LoggerBackend int\<close> with its two constants; any other integer is an unknown backend.\<close>

type_synonym LoggerBackend = int

abbreviation LoggerBackendZap :: LoggerBackend where "LoggerBackendZap \<equiv> 0"
abbreviation LoggerBackendLogrus :: LoggerBackend where "LoggerBackendLogrus \<equiv> 1"

text \<open>
  The errors of the package: the sentinel \<^verbatim>\<open>errInvalidLoggerInstance\<close>, and whatever
  error a backend constructor returns.
\<close>

datatype logger_error = errInvalidLoggerInstance | BackendError string

fun logger_error_text :: "logger_error \<Rightarrow> string" where
  "logger_error_text errInvalidLoggerInstance = ''invalid logger instance''"
| "logger_error_text (BackendError msg) = msg"

text \<open>
  The backend constructors \<^verbatim>\<open>newZapLogger\<close> and \<^verbatim>\<open>newLogrusLogger\<close> are called by
  \<^verbatim>\<open>logger.go\<close> but defined in files that are not among the sources, so the functions of
  \<^verbatim>\<open>logger.go\<close> take them as a parameter.  A constructor returns a \<^verbatim>\<open>Logger\<close> (an
  interface value, \<open>None\<close> when nil; a value of \<open>'l\<close> stands for the instance) and an
  error.
\<close>

record 'l backends =
  newZapLogger :: "Configuration \<Rightarrow> 'l option \<times> logger_error option"
  newLogrusLogger :: "Configuration \<Rightarrow> 'l option \<times> logger_error option"

text \<open>The package's variables: \<^verbatim>\<open>log\<close>, and whether \<^verbatim>\<open>once\<close> (a \<^verbatim>\<open>sync.Once\<close>) has run.\<close>

record 'l globals =
  log :: "'l option"
  once_done :: bool

text \<open>\<^verbatim>\<open>func DefaultLogger() Logger\<close>: the constructor's error is dropped.\<close>

definition default_cfg :: Configuration where
  "default_cfg = \<lparr>EnableConsole = True, ConsoleJSONFormat = False, ConsoleLevel = ''info'',
                  EnableFile = False, FileJSONFormat = False, FileLevel = [], FileLocation = []\<rparr>"

definition DefaultLogger :: "'l backends \<Rightarrow> 'l option" where
  "DefaultLogger B = fst (newZapLogger B default_cfg)"

text \<open>The state at process start: \<^verbatim>\<open>var log = DefaultLogger()\<close>, and \<^verbatim>\<open>once\<close> unused.\<close>

definition init_globals :: "'l backends \<Rightarrow> 'l globals" where
  "init_globals B = \<lparr>log = DefaultLogger B, once_done = False\<rparr>"

text \<open>\<^verbatim>\<open>func NewLogger(config Configuration, backend LoggerBackend) (Logger, error)\<close>\<close>

definition NewLogger ::
  "'l backends \<Rightarrow> Configuration \<Rightarrow> LoggerBackend \<Rightarrow> 'l option \<times> logger_error option" where
  "NewLogger B config backend =
     (if backend = LoggerBackendZap then newZapLogger B config
      else if backend = LoggerBackendLogrus then newLogrusLogger B config
      else (None, Some errInvalidLoggerInstance))"

text \<open>
  \<^verbatim>\<open>func InitLogger(config Configuration, backend LoggerBackend) (Logger, error)\<close>.
  \<^verbatim>\<open>once.Do(f)\<close> runs \<open>f\<close> only if no earlier call of \<^verbatim>\<open>once.Do\<close> has run, and marks
  the \<^verbatim>\<open>once\<close> as done when \<open>f\<close> returns.  The local \<open>err\<close> starts as nil; the function
  returns the package's \<^verbatim>\<open>log\<close> and \<open>err\<close>.
\<close>

definition InitLogger ::
  "'l backends \<Rightarrow> Configuration \<Rightarrow> LoggerBackend \<Rightarrow> 'l globals \<Rightarrow>
   ('l option \<times> logger_error option) \<times> 'l globals" where
  "InitLogger B config backend g =
     (if once_done g then ((log g, None), g)
      else
        let (g1, err) =
              (if backend = LoggerBackendZap
               then (let (l, e) = NewLogger B config backend in (g\<lparr>log := l\<rparr>, e))
               else if backend = LoggerBackendLogrus
               then (let (l, e) = NewLogger B config backend in (g\<lparr>log := l\<rparr>, e))
               else (g, Some errInvalidLoggerInstance));
            g2 = g1\<lparr>once_done := True\<rparr>
        in ((log g2, err), g2))"

text \<open>A caller that makes the given \<^verbatim>\<open>InitLogger\<close> calls one after the other.\<close>

fun InitLogger_calls ::
  "'l backends \<Rightarrow> (Configuration \<times> LoggerBackend) list \<Rightarrow> 'l globals \<Rightarrow>
   ('l option \<times> logger_error option) list \<times> 'l globals" where
  "InitLogger_calls B [] g = ([], g)"
| "InitLogger_calls B ((config, backend) # cs) g =
     (let (r, g1) = InitLogger B config backend g;
          (rs, g2) = InitLogger_calls B cs g1
      in (r # rs, g2))"

text \<open>
  Modelled from the spec: the backend constructors \<^verbatim>\<open>newZapLogger\<close> and
  \<^verbatim>\<open>newLogrusLogger\<close> are missing from the sources.  The spec has each backend map the
  configuration onto its native configuration and wrap its native call surface, and has
  the global logger created eagerly with a safe default configuration at process start:
  a constructor returns a logger built from the configuration it is given, and no error.
\<close>

datatype backend_logger = zapLogger Configuration | logrusLogger Configuration

definition spec_backends :: "backend_logger backends" where
  "spec_backends = \<lparr>newZapLogger = (\<lambda>config. (Some (zapLogger config), None)),
                    newLogrusLogger = (\<lambda>config. (Some (logrusLogger config), None))\<rparr>"

section \<open>The application mode (appmode/app_mode.go)\<close>

datatype AppMode = Development | Production

text \<open>
  \<^verbatim>\<open>func GetAppMode(appMode string) AppMode\<close>.  \<^verbatim>\<open>AppModeString\<close> is generated by enumer
  (\<^verbatim>\<open>go:generate\<close>) into a file that is not among the sources, so it is a parameter: a
  function from the string to a mode and an error (\<open>None\<close> is nil).
\<close>

definition GetAppMode :: "(string \<Rightarrow> AppMode \<times> 'e option) \<Rightarrow> string \<Rightarrow> AppMode" where
  "GetAppMode AppModeString appMode =
     (let (mode, err) = AppModeString appMode in
      if err \<noteq> None then Development else mode)"

text \<open>
  A parser to evaluate \<open>GetAppMode\<close> with: it knows the two constants by their names and
  returns the zero value and an error for every other string.
\<close>

definition AppModeString_names :: "string \<Rightarrow> AppMode \<times> string option" where
  "AppModeString_names s =
     (if s = ''Development'' then (Development, None)
      else if s = ''Production'' then (Production, None)
      else (Development, Some (s @ '' does not belong to AppMode values'')))"

section \<open>Properties of the interceptor\<close>

subsection \<open>Auxiliary facts\<close>

lemma unwrapErr_cause: "errors_Unwrap err = Some c \<Longrightarrow> unwrapErr err = c"
  by (simp add: unwrapErr_def)



lemma GRPCError_context:
  assumes "unwrapErr err = context_Canceled \<or> unwrapErr err = context_DeadlineExceeded"
  shows "GRPCError w err lg = (Err (FromContextError (unwrapErr err)), lg)"
  using assms by (auto simp: GRPCError_def)

lemma GRPCError_fallback:
  assumes "unwrapErr err \<noteq> context_Canceled" "unwrapErr err \<noteq> context_DeadlineExceeded"
    and "\<not> snd (FromError (unwrapErr err))"
  shows "GRPCError w err lg = (Err (FromContextError (unwrapErr err)), lg)"
  using assms by (cases "FromError (unwrapErr err)") (simp add: GRPCError_def)

lemma FromContextError_Canceled:
  "Err (FromContextError context_Canceled) =
     Some (StatusError \<lparr>code = codes_Canceled, message = ''context canceled'', details = []\<rparr>)"
  by (simp add: FromContextError_def Err_def New_def)

lemma FromContextError_DeadlineExceeded:
  "Err (FromContextError context_DeadlineExceeded) =
     Some (StatusError \<lparr>code = codes_DeadlineExceeded, message = ''context deadline exceeded'',
                        details = []\<rparr>)"
  by (simp add: FromContextError_def Err_def New_def)

lemma WithDetails_Code: "WithDetails s ds = Inr s' \<Longrightarrow> Code s' = Code s"
  by (auto simp: WithDetails_def split: option.splits if_splits)

lemma status_Code_Err: "status_Code (Err s) = Code s"
  by (cases s) (auto simp: status_Code_def Err_def)

lemma status_Code_status_Error: "status_Code (status_Error c msg) = c"
  by (simp add: status_Error_def New_def status_Code_Err)

lemma Code_detailed: "Code (detailed e st) = Code st"
  by (auto simp: detailed_def WithDetails_Code split: option.splits sum.splits)

lemma GRPCError_classified:
  assumes "GRPCStatus (unwrapErr err) = Some st"
  shows "GRPCError w err lg =
     (if development w
      then (status_Error (Code (detailed (unwrapErr err) st)) (Error err),
            lg @ [\<lparr>entry_level = WarnLevel, entry_fields = [(''error'', err)],
                   entry_msg = ''getting error...''\<rparr>])
      else (Err (detailed (unwrapErr err) st), lg))"
proof -
  from assms have "unwrapErr err \<noteq> context_Canceled" "unwrapErr err \<noteq> context_DeadlineExceeded"
    by auto
  moreover from assms have "FromError (unwrapErr err) = (st, True)"
    by (simp add: FromError_def)
  ultimately show ?thesis
    by (simp add: GRPCError_def detailed_def)
qed

text \<open>
  The configured catch-all has no influence on what \<open>GRPCError\<close> returns: the branch
  that returns it is only reached with \<open>ok\<close> false, and with \<open>ok\<close> false the
  function has returned before.
\<close>

lemma GRPCError_catch_all_unused:
  "GRPCError (w\<lparr>internalServerErr := x\<rparr>) err lg = GRPCError w err lg"
  by (simp add: GRPCError_def Let_def split: prod.splits)

text \<open>
  In development mode a classified error with a code other than OK comes back with the
  text of the error as passed in, after one warning entry that holds the error.
\<close>

lemma GRPCError_development_classified:
  assumes "GRPCStatus (unwrapErr err) = Some st" "Code st \<noteq> codes_OK" "development w"
  shows "GRPCError w err lg =
     (Some (StatusError \<lparr>code = Code st, message = Error err, details = []\<rparr>),
      lg @ [\<lparr>entry_level = WarnLevel, entry_fields = [(''error'', err)],
             entry_msg = ''getting error...''\<rparr>])"
  using assms
  by (simp add: GRPCError_classified Code_detailed status_Error_def New_def Err_def)

subsection \<open>Cancellation and deadline\<close>

text \<open>
  C4: when the one-level unwrap of the error is \<^verbatim>\<open>context.Canceled\<close> or
  \<^verbatim>\<open>context.DeadlineExceeded\<close>, \<open>GRPCError\<close> returns the matching context status
  (code Canceled or DeadlineExceeded, with the sentinel's text) whatever the wrapper's
  mode and catch-all are, logs nothing, and does not return the catch-all: the result is
  the same for every wrapper, and differs from any catch-all whose code is neither
  Canceled nor DeadlineExceeded.
\<close>

theorem GRPCError_cancellation_deadline:
  "(unwrapErr err = context_Canceled \<longrightarrow>
      GRPCError w err lg =
        (Some (StatusError \<lparr>code = codes_Canceled, message = ''context canceled'',
                            details = []\<rparr>), lg)) \<and>
   (unwrapErr err = context_DeadlineExceeded \<longrightarrow>
      GRPCError w err lg =
        (Some (StatusError \<lparr>code = codes_DeadlineExceeded,
                            message = ''context deadline exceeded'', details = []\<rparr>), lg)) \<and>
   (unwrapErr err = context_Canceled \<or> unwrapErr err = context_DeadlineExceeded \<longrightarrow>
      GRPCError w err lg = GRPCError w' err lg \<and>
      (status_Code (internalServerErr w) \<noteq> codes_Canceled \<and>
       status_Code (internalServerErr w) \<noteq> codes_DeadlineExceeded \<longrightarrow>
         fst (GRPCError w err lg) \<noteq> internalServerErr w))"
proof (intro conjI impI)
  assume c: "unwrapErr err = context_Canceled"
  then show "GRPCError w err lg =
        (Some (StatusError \<lparr>code = codes_Canceled, message = ''context canceled'',
                            details = []\<rparr>), lg)"
    by (simp add: GRPCError_context FromContextError_Canceled)
next
  assume d: "unwrapErr err = context_DeadlineExceeded"
  then show "GRPCError w err lg =
        (Some (StatusError \<lparr>code = codes_DeadlineExceeded,
                            message = ''context deadline exceeded'', details = []\<rparr>), lg)"
    by (simp add: GRPCError_context FromContextError_DeadlineExceeded)
next
  assume cd: "unwrapErr err = context_Canceled \<or> unwrapErr err = context_DeadlineExceeded"
  then show "GRPCError w err lg = GRPCError w' err lg"
    by (simp add: GRPCError_context)
next
  assume cd: "unwrapErr err = context_Canceled \<or> unwrapErr err = context_DeadlineExceeded"
    and i: "status_Code (internalServerErr w) \<noteq> codes_Canceled \<and>
            status_Code (internalServerErr w) \<noteq> codes_DeadlineExceeded"
  from cd have "status_Code (fst (GRPCError w err lg)) = codes_Canceled \<or>
                status_Code (fst (GRPCError w err lg)) = codes_DeadlineExceeded"
    by (auto simp: GRPCError_context FromContextError_Canceled
          FromContextError_DeadlineExceeded status_Code_def)
  with i show "fst (GRPCError w err lg) \<noteq> internalServerErr w"
    by auto
qed

theorem GRPCError_cancellation_deadline_witness:
  "unwrapErr (AppError ''list users: context canceled'' (Some context_Canceled) None None)
     = context_Canceled \<and>
   GRPCError \<lparr>development = False,
              internalServerErr = Some (StatusError \<lparr>code = codes_Internal,
                message = ''internal server error'', details = []\<rparr>)\<rparr>
     (AppError ''list users: context canceled'' (Some context_Canceled) None None) []
     = (Some (StatusError \<lparr>code = codes_Canceled, message = ''context canceled'',
                           details = []\<rparr>), []) \<and>
   status_Code (Some (StatusError \<lparr>code = codes_Internal,
     message = ''internal server error'', details = []\<rparr>)) = codes_Internal \<and>
   fst (GRPCError \<lparr>development = False,
              internalServerErr = Some (StatusError \<lparr>code = codes_Internal,
                message = ''internal server error'', details = []\<rparr>)\<rparr>
     (AppError ''list users: context canceled'' (Some context_Canceled) None None) [])
     \<noteq> Some (StatusError \<lparr>code = codes_Internal,
                message = ''internal server error'', details = []\<rparr>) \<and>
   unwrapErr context_DeadlineExceeded = context_DeadlineExceeded \<and>
   GRPCError \<lparr>development = True, internalServerErr = None\<rparr> context_DeadlineExceeded []
     = (Some (StatusError \<lparr>code = codes_DeadlineExceeded,
                           message = ''context deadline exceeded'', details = []\<rparr>), [])"
  using GRPCError_cancellation_deadline
          [of "AppError ''list users: context canceled'' (Some context_Canceled) None None"
              "\<lparr>development = False,
                internalServerErr = Some (StatusError \<lparr>code = codes_Internal,
                  message = ''internal server error'', details = []\<rparr>)\<rparr>" "[]"]
        GRPCError_cancellation_deadline
          [of context_DeadlineExceeded "\<lparr>development = True, internalServerErr = None\<rparr>" "[]"]
  by (simp add: unwrapErr_def status_Code_def)

subsection \<open>Errors that are not status errors\<close>

text \<open>
  C5: when the one-level unwrap of the error is neither \<^verbatim>\<open>context.Canceled\<close> nor
  \<^verbatim>\<open>context.DeadlineExceeded\<close> and \<^verbatim>\<open>status.FromError\<close> reports it as not a status
  error, \<open>GRPCError\<close> returns \<^verbatim>\<open>status.FromContextError(wrappedErr).Err()\<close>, the
  conversion of the cancellation and deadline path, in either mode and without a log
  entry.
\<close>

theorem GRPCError_unclassified_uses_context_conversion:
  "unwrapErr err \<noteq> context_Canceled \<and> unwrapErr err \<noteq> context_DeadlineExceeded \<and>
   \<not> snd (FromError (unwrapErr err)) \<longrightarrow>
     GRPCError w err lg = (Err (FromContextError (unwrapErr err)), lg)"
  by (simp add: GRPCError_fallback)

theorem GRPCError_unclassified_uses_context_conversion_witness:
  "unwrapErr (AppError ''no rows'' None None None) \<noteq> context_Canceled \<and>
   unwrapErr (AppError ''no rows'' None None None) \<noteq> context_DeadlineExceeded \<and>
   \<not> snd (FromError (unwrapErr (AppError ''no rows'' None None None))) \<and>
   GRPCError \<lparr>development = True, internalServerErr = None\<rparr>
       (AppError ''no rows'' None None None) []
     = (Err (FromContextError (AppError ''no rows'' None None None)), []) \<and>
   Err (FromContextError (AppError ''no rows'' None None None))
     = Some (StatusError \<lparr>code = codes_Unknown, message = ''no rows'', details = []\<rparr>)"
  using GRPCError_unclassified_uses_context_conversion
          [of "AppError ''no rows'' None None None"
              "\<lparr>development = True, internalServerErr = None\<rparr>" "[]"]
  by (simp add: unwrapErr_def FromError_def FromContextError_def Err_def New_def)

text \<open>
  C1: the specification has production mode answer an unclassifiable error with the
  catch-all.  The code does not: for the plain error \<open>dial db: password rejected\<close>, in
  production mode with the catch-all \<open>internal server error\<close> (code Internal),
  \<open>GRPCError\<close> returns a status of code Unknown whose message is the error's own text,
  and logs nothing.
\<close>

theorem GRPCError_production_unclassified_returns_text:
  "GRPCError
     \<lparr>development = False,
      internalServerErr = Some (StatusError \<lparr>code = codes_Internal,
        message = ''internal server error'', details = []\<rparr>)\<rparr>
     (AppError ''dial db: password rejected'' None None None) []
   = (Some (StatusError \<lparr>code = codes_Unknown, message = ''dial db: password rejected'',
                         details = []\<rparr>), [])"
  by (simp add: GRPCError_def unwrapErr_def FromError_def FromContextError_def Err_def New_def)

text \<open>
  C6: the specification has development mode answer every error that is not a
  cancellation or a deadline with the text of the error as passed in, after a warning
  entry.  The code does so for status errors only: for the error \<open>load user: no rows\<close>
  wrapping the plain error \<open>no rows\<close>, in development mode, \<open>GRPCError\<close> returns a
  status of code Unknown whose message is the text of the cause, \<open>no rows\<close>, and
  logs nothing.
\<close>

theorem GRPCError_development_unclassified_returns_cause_text:
  "GRPCError \<lparr>development = True, internalServerErr = None\<rparr>
     (AppError ''load user: no rows'' (Some (AppError ''no rows'' None None None)) None None) []
   = (Some (StatusError \<lparr>code = codes_Unknown, message = ''no rows'', details = []\<rparr>), [])"
  by (simp add: GRPCError_def unwrapErr_def FromError_def FromContextError_def Err_def New_def)

subsection \<open>Status errors\<close>

text \<open>
  C7: when the error wraps (one level) an error that carries a status, the code of the
  error \<open>GRPCError\<close> returns, read as \<^verbatim>\<open>status.Code\<close> reads it, is the code of
  that status, in development and in production mode; and when that code is not OK, an
  error is returned (not nil).
\<close>

theorem GRPCError_preserves_code:
  "errors_Unwrap err = Some inner \<and> GRPCStatus inner = Some st \<longrightarrow>
     status_Code (fst (GRPCError w err lg)) = Code st \<and>
     (Code st \<noteq> codes_OK \<longrightarrow> fst (GRPCError w err lg) \<noteq> None)"
proof
  assume a: "errors_Unwrap err = Some inner \<and> GRPCStatus inner = Some st"
  then have "GRPCStatus (unwrapErr err) = Some st"
    by (simp add: unwrapErr_cause)
  then have c: "status_Code (fst (GRPCError w err lg)) = Code st"
    by (simp add: GRPCError_classified status_Code_status_Error status_Code_Err Code_detailed)
  have "fst (GRPCError w err lg) \<noteq> None" if "Code st \<noteq> codes_OK"
  proof
    assume "fst (GRPCError w err lg) = None"
    then have "status_Code (fst (GRPCError w err lg)) = codes_OK"
      by (simp add: status_Code_def)
    with c that show False by simp
  qed
  with c show "status_Code (fst (GRPCError w err lg)) = Code st \<and>
     (Code st \<noteq> codes_OK \<longrightarrow> fst (GRPCError w err lg) \<noteq> None)"
    by simp
qed

theorem GRPCError_preserves_code_witness:
  "status_Code (fst (GRPCError \<lparr>development = False, internalServerErr = None\<rparr>
     (AppError ''get user: rpc error: code = NotFound desc = no such user''
        (Some (StatusError \<lparr>code = codes_NotFound, message = ''no such user'', details = []\<rparr>))
        None None) [])) = codes_NotFound \<and>
   status_Code (fst (GRPCError \<lparr>development = True, internalServerErr = None\<rparr>
     (AppError ''get user: rpc error: code = NotFound desc = no such user''
        (Some (StatusError \<lparr>code = codes_NotFound, message = ''no such user'', details = []\<rparr>))
        None None) [])) = codes_NotFound \<and>
   fst (GRPCError \<lparr>development = False, internalServerErr = None\<rparr>
     (AppError ''get user: rpc error: code = NotFound desc = no such user''
        (Some (StatusError \<lparr>code = codes_NotFound, message = ''no such user'', details = []\<rparr>))
        None None) []) \<noteq> None"
  using GRPCError_preserves_code
          [of "AppError ''get user: rpc error: code = NotFound desc = no such user''
                 (Some (StatusError \<lparr>code = codes_NotFound, message = ''no such user'',
                                      details = []\<rparr>)) None None"
              "StatusError \<lparr>code = codes_NotFound, message = ''no such user'', details = []\<rparr>"
              "Some \<lparr>code = codes_NotFound, message = ''no such user'', details = []\<rparr>"
              "\<lparr>development = False, internalServerErr = None\<rparr>" "[]"]
        GRPCError_preserves_code
          [of "AppError ''get user: rpc error: code = NotFound desc = no such user''
                 (Some (StatusError \<lparr>code = codes_NotFound, message = ''no such user'',
                                      details = []\<rparr>)) None None"
              "StatusError \<lparr>code = codes_NotFound, message = ''no such user'', details = []\<rparr>"
              "Some \<lparr>code = codes_NotFound, message = ''no such user'', details = []\<rparr>"
              "\<lparr>development = True, internalServerErr = None\<rparr>" "[]"]
  by simp

subsection \<open>The handler succeeds\<close>

text \<open>
  C8: when the handler returns a nil error, the interceptor returns the handler's
  response and a nil error; the entries are those the handler left, so the interceptor
  adds none; and the result is the same for every mode and catch-all, so nothing of the
  error translation takes part.
\<close>

theorem UnaryServerInterceptor_passes_success:
  "handler ctx req lg = ((res, None), lg') \<longrightarrow>
     UnaryServerInterceptor dev internal ctx req info handler lg = ((res, None), lg')"
  by (simp add: UnaryServerInterceptor_def)

theorem UnaryServerInterceptor_passes_success_witness:
  "UnaryServerInterceptor False (Some context_Canceled) () ''ping'' ()
     (\<lambda>ctx req lg. ((Some (req @ ''-pong''), None), lg)) [] = ((Some ''ping-pong'', None), [])"
  using UnaryServerInterceptor_passes_success
          [of "\<lambda>ctx req lg. ((Some (req @ ''-pong''), None), lg)" "()" "''ping''" "[]"
              "Some ''ping-pong''" "[]" False "Some context_Canceled" "()"]
  by simp

subsection \<open>One level of unwrapping\<close>







section \<open>Properties of the logging facade\<close>

lemma InitLogger_done: "once_done g \<Longrightarrow> InitLogger B config backend g = ((log g, None), g)"
  by (simp add: InitLogger_def)

lemma InitLogger_first:
  "\<not> once_done g \<Longrightarrow> InitLogger B config backend g = ((l, e), g1) \<Longrightarrow> once_done g1 \<and> log g1 = l"
  by (auto simp: InitLogger_def Let_def split: if_splits prod.splits)

lemma InitLogger_calls_done:
  "once_done g \<Longrightarrow> InitLogger_calls B cs g = (replicate (length cs) (log g, None), g)"
  by (induction cs) (auto simp: InitLogger_done)

lemma InitLogger_unknown:
  assumes "\<not> once_done g" "backend \<noteq> LoggerBackendZap" "backend \<noteq> LoggerBackendLogrus"
  shows "InitLogger B config backend g =
           ((log g, Some errInvalidLoggerInstance), g\<lparr>once_done := True\<rparr>)"
  using assms by (simp add: InitLogger_def)

text \<open>
  C2, as specified, fails: at process start, with the backends of the spec, a
  first \<open>InitLogger\<close> call with the unknown backend 2 returns the error
  \<open>errInvalidLoggerInstance\<close> together with the default zap logger, not with a nil
  logger.
\<close>

theorem InitLogger_unknown_backend_logger_not_nil:
  "InitLogger spec_backends default_cfg 2 (init_globals spec_backends)
     = ((Some (zapLogger default_cfg), Some errInvalidLoggerInstance),
        \<lparr>log = Some (zapLogger default_cfg), once_done = True\<rparr>) \<and>
   fst (fst (InitLogger spec_backends default_cfg 2 (init_globals spec_backends))) \<noteq> None"
  by (simp add: InitLogger_def init_globals_def DefaultLogger_def spec_backends_def)

text \<open>
  C2, amended: for every configuration, a first \<open>InitLogger\<close> call with a backend
  that is neither \<open>LoggerBackendZap\<close> nor \<open>LoggerBackendLogrus\<close> returns the error
  \<open>errInvalidLoggerInstance\<close>, whose text is \<open>invalid logger instance\<close>, together with
  the package's logger as it was before the call, and leaves that logger in place.  At
  process start that logger is the one \<open>DefaultLogger\<close> made, which with the backends
  of the spec is a zap logger and not nil.
\<close>

theorem InitLogger_unknown_backend:
  "backend \<noteq> LoggerBackendZap \<and> backend \<noteq> LoggerBackendLogrus \<longrightarrow>
     (\<not> once_done g \<longrightarrow>
        InitLogger B config backend g =
          ((log g, Some errInvalidLoggerInstance), g\<lparr>once_done := True\<rparr>)) \<and>
     InitLogger B config backend (init_globals B) =
       ((DefaultLogger B, Some errInvalidLoggerInstance),
        \<lparr>log = DefaultLogger B, once_done = True\<rparr>) \<and>
     logger_error_text errInvalidLoggerInstance = ''invalid logger instance'' \<and>
     DefaultLogger spec_backends = Some (zapLogger default_cfg)"
proof (intro impI conjI)
  assume b: "backend \<noteq> LoggerBackendZap \<and> backend \<noteq> LoggerBackendLogrus"
  {
    assume "\<not> once_done g"
    with b show "InitLogger B config backend g =
          ((log g, Some errInvalidLoggerInstance), g\<lparr>once_done := True\<rparr>)"
      by (simp add: InitLogger_unknown)
  }
  have "\<not> once_done (init_globals B)"
    by (simp add: init_globals_def)
  with b show "InitLogger B config backend (init_globals B) =
       ((DefaultLogger B, Some errInvalidLoggerInstance),
        \<lparr>log = DefaultLogger B, once_done = True\<rparr>)"
    by (simp add: InitLogger_unknown) (simp add: init_globals_def)
  show "logger_error_text errInvalidLoggerInstance = ''invalid logger instance''"
    by simp
  show "DefaultLogger spec_backends = Some (zapLogger default_cfg)"
    by (simp add: DefaultLogger_def spec_backends_def)
qed

theorem InitLogger_unknown_backend_witness:
  "(7::int) \<noteq> LoggerBackendZap \<and> (7::int) \<noteq> LoggerBackendLogrus \<and>
   \<not> once_done (init_globals spec_backends) \<and>
   InitLogger spec_backends (default_cfg\<lparr>ConsoleLevel := ''debug''\<rparr>) 7
       (init_globals spec_backends)
     = ((Some (zapLogger default_cfg), Some errInvalidLoggerInstance),
        \<lparr>log = Some (zapLogger default_cfg), once_done = True\<rparr>)"
  using InitLogger_unknown_backend
          [of 7 "init_globals spec_backends" spec_backends
              "default_cfg\<lparr>ConsoleLevel := ''debug''\<rparr>"]
  by (simp add: init_globals_def DefaultLogger_def spec_backends_def)

text \<open>
  C3: once a first \<open>InitLogger\<close> call has succeeded (it ran with the \<^verbatim>\<open>once\<close> unused
  and returned a nil error) with the logger \<open>l\<close>, every later call, whatever its
  configuration and backend, returns \<open>l\<close> and a nil error and changes nothing; so
  does each call of any sequence of later calls.
\<close>

theorem InitLogger_singleton:
  "\<not> once_done g \<and> InitLogger B config1 backend1 g = ((l, None), g1) \<longrightarrow>
     InitLogger B config2 backend2 g1 = ((l, None), g1) \<and>
     InitLogger_calls B cs g1 = (replicate (length cs) (l, None), g1)"
proof
  assume a: "\<not> once_done g \<and> InitLogger B config1 backend1 g = ((l, None), g1)"
  then have "once_done g1 \<and> log g1 = l"
    using InitLogger_first [of g B config1 backend1 l None g1] by simp
  then show "InitLogger B config2 backend2 g1 = ((l, None), g1) \<and>
     InitLogger_calls B cs g1 = (replicate (length cs) (l, None), g1)"
    by (simp add: InitLogger_done InitLogger_calls_done)
qed

theorem InitLogger_singleton_witness:
  "\<not> once_done (init_globals spec_backends) \<and>
   InitLogger spec_backends default_cfg LoggerBackendLogrus (init_globals spec_backends)
     = ((Some (logrusLogger default_cfg), None),
        \<lparr>log = Some (logrusLogger default_cfg), once_done = True\<rparr>) \<and>
   InitLogger spec_backends (default_cfg\<lparr>EnableFile := True\<rparr>) LoggerBackendZap
       \<lparr>log = Some (logrusLogger default_cfg), once_done = True\<rparr>
     = ((Some (logrusLogger default_cfg), None),
        \<lparr>log = Some (logrusLogger default_cfg), once_done = True\<rparr>) \<and>
   InitLogger_calls spec_backends
       [(default_cfg\<lparr>ConsoleLevel := ''warn''\<rparr>, LoggerBackendZap), (default_cfg, 9)]
       \<lparr>log = Some (logrusLogger default_cfg), once_done = True\<rparr>
     = ([(Some (logrusLogger default_cfg), None), (Some (logrusLogger default_cfg), None)],
        \<lparr>log = Some (logrusLogger default_cfg), once_done = True\<rparr>)"
proof -
  have first: "InitLogger spec_backends default_cfg LoggerBackendLogrus
                 (init_globals spec_backends)
     = ((Some (logrusLogger default_cfg), None),
        \<lparr>log = Some (logrusLogger default_cfg), once_done = True\<rparr>)"
    by (simp add: InitLogger_def NewLogger_def init_globals_def spec_backends_def)
  have fresh: "\<not> once_done (init_globals spec_backends)"
    by (simp add: init_globals_def)
  show ?thesis
    using first fresh
      InitLogger_singleton
        [of "init_globals spec_backends" spec_backends default_cfg LoggerBackendLogrus
            "Some (logrusLogger default_cfg)"
            "\<lparr>log = Some (logrusLogger default_cfg), once_done = True\<rparr>"
            "default_cfg\<lparr>EnableFile := True\<rparr>" LoggerBackendZap
            "[(default_cfg\<lparr>ConsoleLevel := ''warn''\<rparr>, LoggerBackendZap), (default_cfg, 9)]"]
    by (simp add: numeral_2_eq_2)
qed

section \<open>Properties of the application mode\<close>

text \<open>
  C10: \<open>GetAppMode\<close> returns \<open>Development\<close> for every string the parser rejects
  (it returns an error), and the parser's mode for every string it accepts.
\<close>

theorem GetAppMode_default_Development:
  "(snd (AppModeString s) \<noteq> None \<longrightarrow> GetAppMode AppModeString s = Development) \<and>
   (\<forall>m. AppModeString s = (m, None) \<longrightarrow> GetAppMode AppModeString s = m)"
  by (auto simp: GetAppMode_def split: prod.splits)

theorem GetAppMode_default_Development_witness:
  "snd (AppModeString_names ''staging'') \<noteq> None \<and>
   GetAppMode AppModeString_names ''staging'' = Development \<and>
   AppModeString_names ''Production'' = (Production, None) \<and>
   GetAppMode AppModeString_names ''Production'' = Production \<and>
   GetAppMode AppModeString_names ''Development'' = Development"
  using GetAppMode_default_Development [of AppModeString_names "''staging''"]
        GetAppMode_default_Development [of AppModeString_names "''Production''"]
        GetAppMode_default_Development [of AppModeString_names "''Development''"]
  by (simp add: AppModeString_names_def)

end
